theory Spec2Isabelle
  imports
    Main
    "HOL-Library.Sublist"
    "HOL-Library.List_Lexorder"
    "HOL-Library.Stream"
    "HOL-Library.Word"
begin

unbundle bit_operations_syntax

section \<open>Strings\<close>

text \<open>
  A Python \<^verbatim>\<open>str\<close> is a sequence of Unicode code points, and \<^verbatim>\<open>len\<close> counts code
  points. The queue holds Japanese text, so a string is modelled as the list of its code
  points; \<open>ascii\<close> writes an ASCII literal in that form. With the lexicographic order on
  lists, \<open>\<le>\<close> on two strings is Python's comparison of \<^verbatim>\<open>str\<close> values.
\<close>

type_synonym pystr = "nat list"

definition ascii :: "string \<Rightarrow> pystr" where
  "ascii s = map of_char s"

definition SP :: nat where
  "SP = 32"

definition TAB :: nat where
  "TAB = 9"

definition NL :: nat where
  "NL = 10"

text \<open>The character class \<^verbatim>\<open>[ \t]\<close> of the first regular expression of \<^verbatim>\<open>normalize_text\<close>.\<close>

definition is_blank :: "nat \<Rightarrow> bool" where
  "is_blank c \<longleftrightarrow> c = SP \<or> c = TAB"

text \<open>
  The code points that \<^verbatim>\<open>str.strip()\<close> removes when called without an argument:
  those for which \<^verbatim>\<open>str.isspace\<close> holds.
\<close>

definition is_space :: "nat \<Rightarrow> bool" where
  "is_space c \<longleftrightarrow>
     (9 \<le> c \<and> c \<le> 13) \<or> (28 \<le> c \<and> c \<le> 32) \<or> c = 133 \<or> c = 160 \<or> c = 5760 \<or>
     (8192 \<le> c \<and> c \<le> 8202) \<or> c = 8232 \<or> c = 8233 \<or> c = 8239 \<or> c = 8287 \<or> c = 12288"

text \<open>
  \<^verbatim>\<open>re.sub(r"[ \t]+", " ", text)\<close>: scanning from the left, at a blank the greedy match
  takes the whole run of blanks and is replaced by one space; any other character is copied.
\<close>

function sub_blanks :: "pystr \<Rightarrow> pystr" where
  "sub_blanks [] = []"
| "sub_blanks (c # cs) =
     (if is_blank c then SP # sub_blanks (dropWhile is_blank cs)
      else c # sub_blanks cs)"
  by pat_completeness auto
termination
  by (relation "measure length") (auto simp: le_imp_less_Suc length_dropWhile_le)

text \<open>
  \<^verbatim>\<open>re.sub(r"\n{3,}", "\n\n", text)\<close>: the pattern matches where three newlines start;
  the greedy match takes every newline that follows and is replaced by two newlines.
\<close>

function sub_newlines :: "pystr \<Rightarrow> pystr" where
  "sub_newlines [] = []"
| "sub_newlines (c # cs) =
     (if c = NL \<and> take 2 cs = [NL, NL]
      then NL # NL # sub_newlines (dropWhile (\<lambda>x. x = NL) cs)
      else c # sub_newlines cs)"
  by pat_completeness auto
termination
  by (relation "measure length") (auto simp: le_imp_less_Suc length_dropWhile_le)

definition strip :: "pystr \<Rightarrow> pystr" where
  "strip s = dropWhile is_space (rev (dropWhile is_space (rev s)))"

definition normalize_text :: "pystr \<Rightarrow> pystr" where
  "normalize_text text = strip (sub_newlines (sub_blanks text))"

text \<open>\<^verbatim>\<open>text.split("\n")[0]\<close>: the text up to its first newline.\<close>

definition first_line :: "pystr \<Rightarrow> pystr" where
  "first_line text = takeWhile (\<lambda>c. c \<noteq> NL) text"

text \<open>
  \<^verbatim>\<open>s.replace(old, new)\<close>: every occurrence of \<open>old\<close>, found from the left and not
  overlapping, becomes \<open>new\<close>. With an empty \<open>old\<close> Python puts \<open>new\<close> before every
  character and at the end.
\<close>

function replace_from :: "pystr \<Rightarrow> pystr \<Rightarrow> pystr \<Rightarrow> pystr" where
  "replace_from old new [] = []"
| "replace_from old new (c # cs) =
     (if old \<noteq> [] \<and> prefix old (c # cs)
      then new @ replace_from old new (drop (length old) (c # cs))
      else c # replace_from old new cs)"
  by pat_completeness auto
termination
  by (relation "measure (\<lambda>(old, new, s). length s)") (auto simp: Suc_le_eq)

definition replace :: "pystr \<Rightarrow> pystr \<Rightarrow> pystr \<Rightarrow> pystr" where
  "replace s old new =
     (if old = [] then new @ concat (map (\<lambda>c. c # new) s) else replace_from old new s)"

text \<open>\<^verbatim>\<open>sep.join(parts)\<close>.\<close>

fun join :: "pystr \<Rightarrow> pystr list \<Rightarrow> pystr" where
  "join sep [] = []"
| "join sep [p] = p"
| "join sep (p # q # ps) = p @ sep @ join sep (q # ps)"

section \<open>Errors\<close>

text \<open>
  The exceptions the modelled code can raise. \<open>PostValidationError\<close> carries which check
  of \<^verbatim>\<open>validate_post\<close> failed, with the values its message is built from.
\<close>

datatype validation_failure =
    TextTooLong nat
  | ForbiddenWords "pystr list"
  | DuplicateFingerprint
  | DuplicateHook pystr

datatype error =
    PostValidationError validation_failure
  | PostAPIError
  | TypeError
  | IndexError
  | ValueError
  | UnicodeEncodeError
  | UnboundLocalError

section \<open>Fingerprints (\<^verbatim>\<open>src/utils.py\<close>)\<close>

text \<open>
  \<^verbatim>\<open>str.encode("utf-8")\<close>. A surrogate code point cannot be encoded: Python raises
  \<^verbatim>\<open>UnicodeEncodeError\<close>. A number from \<open>0x110000\<close> on is not a code point of any
  Python string.
\<close>

definition utf8_char :: "nat \<Rightarrow> error + 8 word list" where
  "utf8_char c =
     (if c < 0x80 then Inr [of_nat c]
      else if c < 0x800 then Inr [of_nat (0xC0 + c div 64), of_nat (0x80 + c mod 64)]
      else if 0xD800 \<le> c \<and> c \<le> 0xDFFF then Inl UnicodeEncodeError
      else if c < 0x10000 then
        Inr [of_nat (0xE0 + c div 4096), of_nat (0x80 + c div 64 mod 64),
             of_nat (0x80 + c mod 64)]
      else if c < 0x110000 then
        Inr [of_nat (0xF0 + c div 262144), of_nat (0x80 + c div 4096 mod 64),
             of_nat (0x80 + c div 64 mod 64), of_nat (0x80 + c mod 64)]
      else Inl UnicodeEncodeError)"

fun utf8_encode :: "pystr \<Rightarrow> error + 8 word list" where
  "utf8_encode [] = Inr []"
| "utf8_encode (c # cs) =
     (case utf8_char c of
        Inl e \<Rightarrow> Inl e
      | Inr bs \<Rightarrow> (case utf8_encode cs of Inl e \<Rightarrow> Inl e | Inr rest \<Rightarrow> Inr (bs @ rest)))"

text \<open>
  \<^verbatim>\<open>hexdigest()\<close> of a 256-bit digest: its 64 four-bit digits, the most significant
  first, in lowercase.
\<close>

definition hex_digit :: "nat \<Rightarrow> nat" where
  "hex_digit d = ascii ''0123456789abcdef'' ! d"

definition hexdigest :: "256 word \<Rightarrow> pystr" where
  "hexdigest w = map (\<lambda>i. hex_digit (unat (drop_bit (4 * i) w AND 15))) (rev [0..<64])"

text \<open>
  \<^verbatim>\<open>calculate_fingerprint\<close>. The hash function of \<^verbatim>\<open>hashlib\<close> is not part of the
  program: \<open>sha256\<close> is any function from byte strings to 256-bit digests.
\<close>

definition calculate_fingerprint :: "(8 word list \<Rightarrow> 256 word) \<Rightarrow> pystr \<Rightarrow> error + pystr" where
  "calculate_fingerprint sha256 text =
     (let normalized = normalize_text text in
      case utf8_encode normalized of
        Inl e \<Rightarrow> Inl e
      | Inr bytes \<Rightarrow> Inr (hexdigest (sha256 bytes)))"

section \<open>Queue records\<close>

text \<open>
  A record of the queue document is a JSON object. The generator writes the eight
  string fields as strings, and the code reads each of them with \<^verbatim>\<open>item.get\<close>, so a
  field may be missing: \<open>None\<close> is the missing key. The generator writes
  \<^verbatim>\<open>tweet_id\<close> and \<^verbatim>\<open>posted_at_utc\<close> as \<^verbatim>\<open>null\<close>, and the dispatcher later stores strings
  there, so these two fields have three states.
\<close>

datatype jstr = Absent | Null | Str pystr

record item =
  item_date :: "pystr option"
  item_slot :: "pystr option"
  item_pillar :: "pystr option"
  item_format :: "pystr option"
  item_hook :: "pystr option"
  item_text :: "pystr option"
  item_status :: "pystr option"
  item_fingerprint :: "pystr option"
  item_tweet_id :: jstr
  item_posted_at_utc :: jstr

text \<open>\<^verbatim>\<open>d.get(key, "")\<close> on a string field.\<close>

definition get_or_empty :: "pystr option \<Rightarrow> pystr" where
  "get_or_empty v = (case v of None \<Rightarrow> [] | Some s \<Rightarrow> s)"

definition extract_hook :: "item \<Rightarrow> pystr" where
  "extract_hook item =
     (if item_hook item \<noteq> None \<and> item_hook item \<noteq> Some []
      then normalize_text (the (item_hook item))
      else
        let text = get_or_empty (item_text item);
            first = (if text \<noteq> [] then first_line text else [])
        in normalize_text first)"

definition FORBIDDEN_WORDS :: "pystr list" where
  "FORBIDDEN_WORDS = [
    [24517, 12378, 31292, 12370, 12427],
    [20445, 35388],
    [30906, 23455, 12395],
    [35504, 12391, 12418, 26376, 21454],
    [32118, 23550, 12395],
    [49, 48, 48, 37],
    [12494, 12540, 12522, 12473, 12463],
    [82, 84, 12375, 12390],
    [12522, 12484, 12452, 12540, 12488, 12375, 12390],
    [12356, 12356, 12397, 12375, 12390],
    [12501, 12457, 12525, 12540, 12375, 12390],
    [25313, 25955, 24076, 26395],
    [24195, 12417, 12390],
    [12471, 12455, 12450, 12375, 12390],
    [12488, 12524, 12531, 12489],
    [12496, 12474],
    [12496, 12474, 12427],
    [28814, 19978],
    [12496, 12459],
    [24773, 24369],
    [39178, 20998],
    [32066, 12431, 12387, 12390, 12427],
    [28961, 26009, 12503, 12524, 12476, 12531, 12488],
    [26399, 38291, 38480, 23450, 12391, 28961, 26009],
    [20170, 12384, 12369, 28961, 26009],
    [76, 73, 78, 69, 30331, 37682],
    [68, 77, 36865, 12387, 12390]]"

definition MAX_TEXT_LENGTH :: nat where
  "MAX_TEXT_LENGTH = 260"

text \<open>
  \<^verbatim>\<open>check_forbidden_words\<close>. \<^verbatim>\<open>str.lower\<close> follows the Unicode case tables, which are
  not part of the program: \<open>lower\<close> is any function on strings. \<^verbatim>\<open>a in b\<close> on strings is
  the test for a contiguous sublist.
\<close>

definition check_forbidden_words :: "(pystr \<Rightarrow> pystr) \<Rightarrow> pystr \<Rightarrow> pystr list" where
  "check_forbidden_words lower text =
     (let text_lower = lower text in
      filter (\<lambda>word. sublist (lower word) text_lower) FORBIDDEN_WORDS)"

definition validate_text_length :: "pystr \<Rightarrow> bool \<times> nat" where
  "validate_text_length text = (let len = length text in (len \<le> MAX_TEXT_LENGTH, len))"

text \<open>
  \<^verbatim>\<open>list.sort(key=..., reverse=True)\<close> with keys that are strings or \<^verbatim>\<open>None\<close>. The sort
  is stable and, reversed, keeps equal keys in their original order: CPython reverses the
  list, sorts it ascending and reverses it again. On a list of two or more elements every
  key is compared with another one, and comparing \<^verbatim>\<open>None\<close> raises \<^verbatim>\<open>TypeError\<close>; a
  shorter list is not compared at all.
\<close>

definition sort_reverse :: "('a \<Rightarrow> pystr option) \<Rightarrow> 'a list \<Rightarrow> error + 'a list" where
  "sort_reverse key xs =
     (if 2 \<le> length xs \<and> list_ex (\<lambda>x. key x = None) xs then Inl TypeError
      else Inr (rev (sort_key (\<lambda>x. the (key x)) (rev xs))))"

text \<open>
  The sort key \<^verbatim>\<open>x.get("posted_at_utc", "")\<close>: the default stands in for a missing key
  only; a \<^verbatim>\<open>null\<close> in the document is returned as \<^verbatim>\<open>None\<close>.
\<close>

definition posted_at_key :: "item \<Rightarrow> pystr option" where
  "posted_at_key x =
     (case item_posted_at_utc x of Absent \<Rightarrow> Some [] | Null \<Rightarrow> None | Str s \<Rightarrow> Some s)"

definition get_posted_items :: "item list \<Rightarrow> nat \<Rightarrow> error + item list" where
  "get_posted_items queue limit =
     (let posted = filter (\<lambda>item. item_status item = Some (ascii ''posted'')) queue in
      case sort_reverse posted_at_key posted of
        Inl e \<Rightarrow> Inl e
      | Inr posted_sorted \<Rightarrow> Inr (take limit posted_sorted))"

definition check_fingerprint_duplicate :: "pystr \<Rightarrow> item list \<Rightarrow> nat \<Rightarrow> error + bool" where
  "check_fingerprint_duplicate fingerprint queue limit =
     (case get_posted_items queue limit of
        Inl e \<Rightarrow> Inl e
      | Inr posted \<Rightarrow> Inr (list_ex (\<lambda>item. item_fingerprint item = Some fingerprint) posted))"

definition check_hook_duplicate :: "pystr \<Rightarrow> item list \<Rightarrow> nat \<Rightarrow> error + bool" where
  "check_hook_duplicate hook queue limit =
     (case get_posted_items queue limit of
        Inl e \<Rightarrow> Inl e
      | Inr posted \<Rightarrow>
          (let normalized_hook = normalize_text hook in
           Inr (list_ex (\<lambda>item. normalize_text (extract_hook item) = normalized_hook) posted)))"

section \<open>Runs of a script\<close>

text \<open>
  What a run of one of the scripts leaves behind: its exit status, whether it read the
  queue document, the queue it held in memory when it ended, the document it wrote (if it
  wrote one) and the texts it sent to the publish endpoint. \<^verbatim>\<open>load_queue\<close> yields the
  empty list when the document does not exist.
\<close>

record outcome =
  exit_code :: nat
  loaded :: bool
  memory :: "item list"
  written :: "item list option"
  published :: "pystr list"

definition load_queue :: "item list option \<Rightarrow> item list" where
  "load_queue queue_file = (case queue_file of None \<Rightarrow> [] | Some queue \<Rightarrow> queue)"

section \<open>Dispatch (\<^verbatim>\<open>src/post_slot.py\<close>)\<close>

text \<open>\<^verbatim>\<open>find_target_post\<close>; \<open>today\<close> is the value of \<^verbatim>\<open>today_jst()\<close>.\<close>

fun find_target_post :: "pystr \<Rightarrow> item list \<Rightarrow> pystr \<Rightarrow> item option" where
  "find_target_post today [] slot = None"
| "find_target_post today (item # queue) slot =
     (if item_date item = Some today \<and> item_slot item = Some slot
         \<and> item_status item = Some (ascii ''approved'')
      then Some item
      else find_target_post today queue slot)"

definition validate_post ::
  "(8 word list \<Rightarrow> 256 word) \<Rightarrow> (pystr \<Rightarrow> pystr) \<Rightarrow> item \<Rightarrow> item list \<Rightarrow> error + unit" where
  "validate_post sha256 lower item queue =
     (let text = get_or_empty (item_text item);
          (is_valid, len) = validate_text_length text
      in
      if \<not> is_valid then Inl (PostValidationError (TextTooLong len))
      else
        let forbidden = check_forbidden_words lower text in
        if forbidden \<noteq> [] then Inl (PostValidationError (ForbiddenWords forbidden))
        else
          case (if item_fingerprint item \<noteq> None \<and> item_fingerprint item \<noteq> Some []
                then Inr (the (item_fingerprint item))
                else calculate_fingerprint sha256 text) of
            Inl e \<Rightarrow> Inl e
          | Inr fingerprint \<Rightarrow>
              (case check_fingerprint_duplicate fingerprint queue 50 of
                 Inl e \<Rightarrow> Inl e
               | Inr True \<Rightarrow> Inl (PostValidationError DuplicateFingerprint)
               | Inr False \<Rightarrow>
                   (let hook = extract_hook item in
                    case check_hook_duplicate hook queue 14 of
                      Inl e \<Rightarrow> Inl e
                    | Inr True \<Rightarrow> Inl (PostValidationError (DuplicateHook (take 30 hook)))
                    | Inr False \<Rightarrow> Inr ())))"

text \<open>
  The answer of the publish endpoint to one request: status 201 with the identifier found
  in the body (or none), another status, or an exception of the HTTP library.
\<close>

datatype api_result = Created "pystr option" | Rejected | Raised

definition update_posted_item :: "item \<Rightarrow> pystr option \<Rightarrow> pystr \<Rightarrow> item" where
  "update_posted_item item tweet_id now =
     item\<lparr>item_status := Some (ascii ''posted''),
          item_tweet_id := (case tweet_id of None \<Rightarrow> Null | Some i \<Rightarrow> Str i),
          item_posted_at_utc := Str now\<rparr>"

text \<open>
  \<^verbatim>\<open>target\<close> is the very object that \<^verbatim>\<open>find_target_post\<close> met in the list, so
  \<^verbatim>\<open>update_posted_item(target, ...)\<close> changes the queue at the position of the first match.
\<close>

fun update_target :: "pystr \<Rightarrow> pystr \<Rightarrow> (item \<Rightarrow> item) \<Rightarrow> item list \<Rightarrow> item list" where
  "update_target today slot f [] = []"
| "update_target today slot f (item # queue) =
     (if item_date item = Some today \<and> item_slot item = Some slot
         \<and> item_status item = Some (ascii ''approved'')
      then f item # queue
      else item # update_target today slot f queue)"

text \<open>
  What \<^verbatim>\<open>main\<close> of \<^verbatim>\<open>post_slot.py\<close> reads from outside: the \<^verbatim>\<open>SLOT\<close> variable, the
  clock, whether the four credentials are set, the queue document and the publish endpoint.
\<close>

record environment =
  env_slot :: "pystr option"
  env_today :: pystr
  env_now_utc :: pystr
  env_credentials :: bool
  env_queue_file :: "item list option"
  env_api :: "pystr \<Rightarrow> api_result"

definition post_slot_main ::
  "(8 word list \<Rightarrow> 256 word) \<Rightarrow> (pystr \<Rightarrow> pystr) \<Rightarrow> bool \<Rightarrow> environment \<Rightarrow> outcome" where
  "post_slot_main sha256 lower dry_run env =
     (let slot = (case env_slot env of None \<Rightarrow> ascii ''17'' | Some s \<Rightarrow> s) in
      if slot \<noteq> ascii ''17'' \<and> slot \<noteq> ascii ''19'' then
        \<lparr>exit_code = 1, loaded = False, memory = [], written = None, published = []\<rparr>
      else
        let queue = load_queue (env_queue_file env) in
        if queue = [] then
          \<lparr>exit_code = 0, loaded = True, memory = queue, written = None, published = []\<rparr>
        else
          case find_target_post (env_today env) queue slot of
            None \<Rightarrow>
              \<lparr>exit_code = 0, loaded = True, memory = queue, written = None, published = []\<rparr>
          | Some target \<Rightarrow>
              (case validate_post sha256 lower target queue of
                 Inl e \<Rightarrow>
                   \<lparr>exit_code = 1, loaded = True, memory = queue, written = None,
                    published = []\<rparr>
               | Inr u \<Rightarrow>
                   if dry_run then
                     \<lparr>exit_code = 0, loaded = True, memory = queue, written = None,
                      published = []\<rparr>
                   else if \<not> env_credentials env then
                     \<lparr>exit_code = 1, loaded = True, memory = queue, written = None,
                      published = []\<rparr>
                   else
                     let text = get_or_empty (item_text target) in
                     case env_api env text of
                       Created tweet_id \<Rightarrow>
                         (let queue' = update_target (env_today env) slot
                                (\<lambda>item. update_posted_item item tweet_id (env_now_utc env)) queue
                          in \<lparr>exit_code = 0, loaded = True, memory = queue',
                              written = Some queue', published = [text]\<rparr>)
                     | Rejected \<Rightarrow>
                         \<lparr>exit_code = 1, loaded = True, memory = queue, written = None,
                          published = [text]\<rparr>
                     | Raised \<Rightarrow>
                         \<lparr>exit_code = 1, loaded = True, memory = queue, written = None,
                          published = [text]\<rparr>))"

section \<open>Range approval (\<^verbatim>\<open>scripts/approve_range.py\<close>)\<close>

text \<open>
  \<^verbatim>\<open>parse_date\<close> is \<^verbatim>\<open>datetime.strptime(date_str, "%Y-%m-%d")\<close>, a function of the
  standard library: \<open>parse_date\<close> below is any function from strings to values of a
  linearly ordered type, with \<open>None\<close> where \<^verbatim>\<open>strptime\<close> raises \<^verbatim>\<open>ValueError\<close>.
\<close>

definition is_in_range :: "(pystr \<Rightarrow> 'd::linorder option) \<Rightarrow> pystr \<Rightarrow> 'd \<Rightarrow> 'd \<Rightarrow> bool" where
  "is_in_range parse_date date_str from_date to_date =
     (case parse_date date_str of
        None \<Rightarrow> False
      | Some date \<Rightarrow> from_date \<le> date \<and> date \<le> to_date)"

text \<open>The loop of \<^verbatim>\<open>main\<close>: the queue after it and \<^verbatim>\<open>approved_count\<close>.\<close>

fun approve_items ::
  "(pystr \<Rightarrow> 'd::linorder option) \<Rightarrow> 'd \<Rightarrow> 'd \<Rightarrow> bool \<Rightarrow> item list \<Rightarrow> item list \<times> nat" where
  "approve_items parse_date from_date to_date dry_run [] = ([], 0)"
| "approve_items parse_date from_date to_date dry_run (item # queue) =
     (let date_str = get_or_empty (item_date item);
          status = get_or_empty (item_status item);
          item' =
            (if status = ascii ''draft'' \<and> is_in_range parse_date date_str from_date to_date
             then (if dry_run then item else item\<lparr>item_status := Some (ascii ''approved'')\<rparr>)
             else item);
          hit = (if status = ascii ''draft'' \<and> is_in_range parse_date date_str from_date to_date
                 then 1 else 0);
          (queue', approved_count) = approve_items parse_date from_date to_date dry_run queue
      in (item' # queue', hit + approved_count))"

definition approve_range_main ::
  "(pystr \<Rightarrow> 'd::linorder option) \<Rightarrow> pystr \<Rightarrow> pystr \<Rightarrow> bool \<Rightarrow> item list option \<Rightarrow> outcome" where
  "approve_range_main parse_date from_arg to_arg dry_run queue_file =
     (case parse_date from_arg of
        None \<Rightarrow> \<lparr>exit_code = 1, loaded = False, memory = [], written = None, published = []\<rparr>
      | Some from_date \<Rightarrow>
          (case parse_date to_arg of
             None \<Rightarrow>
               \<lparr>exit_code = 1, loaded = False, memory = [], written = None, published = []\<rparr>
           | Some to_date \<Rightarrow>
               if from_date > to_date then
                 \<lparr>exit_code = 1, loaded = False, memory = [], written = None, published = []\<rparr>
               else
                 let queue = load_queue queue_file in
                 if queue = [] then
                   \<lparr>exit_code = 0, loaded = True, memory = queue, written = None,
                    published = []\<rparr>
                 else
                   let (queue', approved_count) =
                         approve_items parse_date from_date to_date dry_run queue
                   in
                   if dry_run then
                     \<lparr>exit_code = 0, loaded = True, memory = queue', written = None,
                      published = []\<rparr>
                   else if approved_count > 0 then
                     \<lparr>exit_code = 0, loaded = True, memory = queue', written = Some queue',
                      published = []\<rparr>
                   else
                     \<lparr>exit_code = 0, loaded = True, memory = queue', written = None,
                      published = []\<rparr>))"

text \<open>
  The queue document after a run: what the run wrote, or what was there before. A
  document that does not exist reads as the empty queue.
\<close>

definition document_after :: "item list option \<Rightarrow> outcome \<Rightarrow> item list" where
  "document_after queue_file out =
     (case written out of None \<Rightarrow> load_queue queue_file | Some queue \<Rightarrow> queue)"

section \<open>Generation (\<^verbatim>\<open>scripts/generate_queue.py\<close>)\<close>

subsection \<open>Templates and lexicon\<close>

text \<open>
  The template and lexicon documents are JSON objects read with \<^verbatim>\<open>dict.get\<close>; every
  key may be missing (\<open>None\<close>). A count directive is a number or a list of numbers. An
  object whose keys are chosen from or looked up (the pillars, the templates of a slot, the
  tags of a pillar) is the list of its entries in document order, with distinct keys.
\<close>

datatype count = CountList "int list" | CountInt int

record template =
  tpl_structure :: "pystr option"
  tpl_format :: "pystr option"
  tpl_hook_patterns :: "pystr list option"
  tpl_closing_patterns :: "pystr list option"
  tpl_lesson_patterns :: "pystr list option"
  tpl_advice_patterns :: "pystr list option"
  tpl_items_format :: "pystr option"
  tpl_items_count :: "count option"
  tpl_steps_format :: "pystr option"
  tpl_steps_count :: "count option"

record options =
  option_a :: "pystr option"
  option_b :: "pystr option"

record pillar_data =
  pd_topic :: "pystr option"
  pd_actions :: "pystr list option"
  pd_options :: "options option"
  pd_check_items :: "pystr list option"
  pd_cautions :: "pystr list option"
  pd_story_elements :: "pystr list option"
  pd_examples :: "pystr list option"

record common =
  com_counts :: "pystr list option"

record hashtags =
  tag_required :: "pystr list option"
  tag_pillar :: "(pystr \<times> pystr list) list option"

record lexicon =
  lex_pillars :: "(pystr \<times> pillar_data) list option"
  lex_common :: "common option"
  lex_hashtags :: "hashtags option"

type_synonym templates = "(pystr \<times> template list) list option"

text \<open>\<^verbatim>\<open>d.get(key, [])\<close> on a list field.\<close>

definition get_or_nil :: "'a list option \<Rightarrow> 'a list" where
  "get_or_nil v = (case v of None \<Rightarrow> [] | Some xs \<Rightarrow> xs)"

subsection \<open>The random source\<close>

text \<open>
  The module \<^verbatim>\<open>random\<close> is modelled by the stream of numbers it will draw; a computation
  that draws takes the stream and returns what is left of it, or the exception it raised.
  \<^verbatim>\<open>random.choice\<close> picks the element at the drawn index and raises \<^verbatim>\<open>IndexError\<close> on an
  empty sequence. \<^verbatim>\<open>random.sample\<close> picks \<open>k\<close> elements at distinct positions, one draw
  each from what is left, and raises \<^verbatim>\<open>ValueError\<close> when \<open>k\<close> is negative or larger
  than the population. Every result of the library functions is the result of some stream.
\<close>

type_synonym rng = "nat stream"

type_synonym 'a gen = "rng \<Rightarrow> error + ('a \<times> rng)"

definition gen_return :: "'a \<Rightarrow> 'a gen" where
  "gen_return x rng = Inr (x, rng)"

definition gen_bind :: "'a gen \<Rightarrow> ('a \<Rightarrow> 'b gen) \<Rightarrow> 'b gen" where
  "gen_bind m f rng = (case m rng of Inl e \<Rightarrow> Inl e | Inr (x, rng') \<Rightarrow> f x rng')"

definition choice :: "'a list \<Rightarrow> 'a gen" where
  "choice xs rng =
     (if xs = [] then Inl IndexError else Inr (xs ! (shd rng mod length xs), stl rng))"

fun sample_from :: "'a list \<Rightarrow> nat \<Rightarrow> rng \<Rightarrow> 'a list \<times> rng" where
  "sample_from pool 0 rng = ([], rng)"
| "sample_from pool (Suc k) rng =
     (let j = shd rng mod length pool;
          (rest, rng') = sample_from (take j pool @ drop (Suc j) pool) k (stl rng)
      in (pool ! j # rest, rng'))"

definition sample :: "'a list \<Rightarrow> int \<Rightarrow> 'a list gen" where
  "sample population k rng =
     (if k < 0 \<or> int (length population) < k then Inl ValueError
      else Inr (sample_from population (nat k) rng))"

subsection \<open>Section generators\<close>

definition generate_hook :: "template \<Rightarrow> pillar_data \<Rightarrow> common \<Rightarrow> pystr gen" where
  "generate_hook template pillar_data common =
     (let hook_patterns = get_or_nil (tpl_hook_patterns template) in
      if hook_patterns = [] then gen_return []
      else
        gen_bind (choice hook_patterns) (\<lambda>pattern.
        gen_bind (choice (case com_counts common of None \<Rightarrow> [ascii ''5''] | Some cs \<Rightarrow> cs))
          (\<lambda>count.
        gen_bind (choice (case pd_actions pillar_data of
                            None \<Rightarrow> [[23550, 24540]] | Some as \<Rightarrow> as)) (\<lambda>action.
        let opts = (case pd_options pillar_data of
                      None \<Rightarrow> \<lparr>option_a = None, option_b = None\<rparr> | Some os \<Rightarrow> os);
            replacements =
              [(ascii ''{pillar_topic}'', get_or_empty (pd_topic pillar_data)),
               (ascii ''{count}'', count),
               (ascii ''{action}'', action),
               (ascii ''{option_a}'',
                  (case option_a opts of None \<Rightarrow> ascii ''A'' | Some a \<Rightarrow> a)),
               (ascii ''{option_b}'',
                  (case option_b opts of None \<Rightarrow> ascii ''B'' | Some b \<Rightarrow> b))]
        in gen_return (foldl (\<lambda>pattern (key, val). replace pattern key val)
                         pattern replacements)))))"

text \<open>\<^verbatim>\<open>generate_items\<close> is called with the item types \<^verbatim>\<open>"items"\<close> and \<^verbatim>\<open>"steps"\<close> only.\<close>

datatype item_type = Items | Steps

definition generate_items :: "template \<Rightarrow> pillar_data \<Rightarrow> item_type \<Rightarrow> pystr gen" where
  "generate_items template pillar_data item_type =
     (let items_format =
            (case (case item_type of Items \<Rightarrow> tpl_items_format template
                                   | Steps \<Rightarrow> tpl_steps_format template) of
               None \<Rightarrow> ascii ''bullet'' | Some f \<Rightarrow> f);
          item_count =
            (case (case item_type of Items \<Rightarrow> tpl_items_count template
                                   | Steps \<Rightarrow> tpl_steps_count template) of
               None \<Rightarrow> CountList [4] | Some c \<Rightarrow> c)
      in
      gen_bind (case item_count of CountList cs \<Rightarrow> choice cs | CountInt c \<Rightarrow> gen_return c)
        (\<lambda>count.
      let all_items =
            (case item_type of
               Items \<Rightarrow> get_or_nil (pd_check_items pillar_data)
                          @ get_or_nil (pd_cautions pillar_data)
             | Steps \<Rightarrow> get_or_nil (pd_actions pillar_data)
                          @ get_or_nil (pd_check_items pillar_data));
          count' = (if int (length all_items) < count then int (length all_items) else count)
      in
      gen_bind (if all_items \<noteq> [] then sample all_items count' else gen_return [])
        (\<lambda>selected.
      if items_format = ascii ''checkbox'' then
        gen_return (join [NL] (map (\<lambda>item. [9745, SP] @ item) selected))
      else if items_format = ascii ''numbered'' then
        (if length selected > 6 then (\<lambda>rng. Inl IndexError)
         else gen_return (join [NL]
                (map (\<lambda>(i, item). [[9312, 9313, 9314, 9315, 9316, 9317] ! i] @ [SP] @ item)
                   (enumerate 0 selected))))
      else
        gen_return (join [NL] (map (\<lambda>item. [12539] @ item) selected)))))"

definition generate_closing :: "template \<Rightarrow> pystr gen" where
  "generate_closing template =
     (let closing_patterns = get_or_nil (tpl_closing_patterns template) in
      if closing_patterns \<noteq> [] then choice closing_patterns else gen_return [])"

definition generate_story_body :: "pillar_data \<Rightarrow> pystr gen" where
  "generate_story_body pillar_data =
     (let story_elements = get_or_nil (pd_story_elements pillar_data);
          examples = get_or_nil (pd_examples pillar_data)
      in
      gen_bind (if story_elements \<noteq> [] then gen_bind (choice story_elements) (\<lambda>s. gen_return [s])
                else gen_return []) (\<lambda>parts1.
      gen_bind (if examples \<noteq> [] then gen_bind (choice examples) (\<lambda>e. gen_return (parts1 @ [e]))
                else gen_return parts1) (\<lambda>parts.
      gen_return (if parts \<noteq> [] then join [NL] parts
                  else [23455, 38555, 12395, 12354, 12387, 12383, 35441, 12391, 12377, 12290]))))"

definition generate_criteria_body :: "pillar_data \<Rightarrow> pystr gen" where
  "generate_criteria_body pillar_data =
     (let cautions = get_or_nil (pd_cautions pillar_data);
          check_items = get_or_nil (pd_check_items pillar_data)
      in
      gen_bind (sample (cautions @ check_items)
                  (min 3 (int (length cautions) + int (length check_items)))) (\<lambda>items.
      gen_return (join [NL] (map (\<lambda>item. [12539] @ item) items))))"

definition generate_options :: "pillar_data \<Rightarrow> pystr gen" where
  "generate_options pillar_data =
     (let opts = (case pd_options pillar_data of
                    None \<Rightarrow> \<lparr>option_a = None, option_b = None\<rparr> | Some os \<Rightarrow> os);
          actions = get_or_nil (pd_actions pillar_data)
      in
      if option_a opts \<noteq> None \<or> option_b opts \<noteq> None then
        gen_return (ascii ''A: '' @ (case option_a opts of None \<Rightarrow> ascii ''A'' | Some a \<Rightarrow> a)
                    @ [NL] @ ascii ''B: ''
                    @ (case option_b opts of None \<Rightarrow> ascii ''B'' | Some b \<Rightarrow> b))
      else if length actions \<ge> 2 then
        gen_bind (sample actions 2) (\<lambda>selected.
        gen_return (ascii ''A: '' @ selected ! 0 @ [NL] @ ascii ''B: '' @ selected ! 1))
      else
        gen_return [65, 58, 32, 12377, 12427, 10, 66, 58, 32, 12375, 12394, 12356])"

definition generate_lesson :: "template \<Rightarrow> pystr gen" where
  "generate_lesson template =
     (let lesson_patterns = get_or_nil (tpl_lesson_patterns template) in
      if lesson_patterns \<noteq> [] then choice lesson_patterns else gen_return [])"

definition generate_advice :: "template \<Rightarrow> pystr" where
  "generate_advice template =
     (case get_or_nil (tpl_advice_patterns template) of
        [] \<Rightarrow> [23554, 38272, 23478, 12395, 30456, 35527, 12434]
      | p # ps \<Rightarrow> p)"

subsection \<open>Composing a post\<close>

text \<open>
  \<^verbatim>\<open>generate_post_text\<close>: the sections are generated in the order of the dictionary
  literal, then substituted into the structure in the same order.
\<close>

definition generate_post_text ::
  "template \<Rightarrow> pillar_data \<Rightarrow> common \<Rightarrow> (pystr \<times> pystr) gen" where
  "generate_post_text template pillar_data common =
     (let structure = (case tpl_structure template of None \<Rightarrow> ascii ''{hook}'' | Some s \<Rightarrow> s) in
      gen_bind (generate_hook template pillar_data common) (\<lambda>hook.
      gen_bind (generate_closing template) (\<lambda>closing.
      gen_bind (generate_items template pillar_data Items) (\<lambda>items.
      gen_bind (generate_items template pillar_data Steps) (\<lambda>steps.
      gen_bind (generate_story_body pillar_data) (\<lambda>template_body.
      gen_bind (generate_criteria_body pillar_data) (\<lambda>comparison.
      gen_bind (generate_story_body pillar_data) (\<lambda>story_body.
      gen_bind (generate_lesson template) (\<lambda>lesson.
      gen_bind (generate_criteria_body pillar_data) (\<lambda>criteria_body.
      gen_bind (generate_options pillar_data) (\<lambda>opts.
      gen_bind (generate_closing template) (\<lambda>context.
      gen_bind (generate_story_body pillar_data) (\<lambda>insight.
      gen_bind (generate_story_body pillar_data) (\<lambda>case_description.
      let parts =
            [(ascii ''{hook}'', hook),
             (ascii ''{closing}'', closing),
             (ascii ''{items}'', items),
             (ascii ''{steps}'', steps),
             (ascii ''{template_body}'', template_body),
             (ascii ''{comparison}'', comparison),
             (ascii ''{story_body}'', story_body),
             (ascii ''{lesson}'', lesson),
             (ascii ''{criteria_body}'', criteria_body),
             (ascii ''{options}'', opts),
             (ascii ''{context}'', context),
             (ascii ''{insight}'', insight),
             (ascii ''{case_description}'', case_description),
             (ascii ''{advice}'', generate_advice template)];
          text = foldl (\<lambda>text (placeholder, content). replace text placeholder content)
                   structure parts
      in gen_return (hook, normalize_text text)))))))))))))))"

definition generate_hashtags :: "lexicon \<Rightarrow> pystr \<Rightarrow> pystr gen" where
  "generate_hashtags lexicon pillar_key =
     (let required = (case lex_hashtags lexicon of
                        None \<Rightarrow> [] | Some h \<Rightarrow> get_or_nil (tag_required h));
          pillar_tags =
            (case lex_hashtags lexicon of
               None \<Rightarrow> []
             | Some h \<Rightarrow> get_or_nil (map_of (get_or_nil (tag_pillar h)) pillar_key))
      in
      gen_bind (if pillar_tags \<noteq> [] then gen_bind (choice pillar_tags) (\<lambda>t. gen_return (required @ [t]))
                else gen_return required) (\<lambda>tags.
      gen_return (join [SP] tags)))"

text \<open>
  The retry loop of \<^verbatim>\<open>generate_single_post\<close>, \<^verbatim>\<open>for _ in range(5)\<close>, with \<open>n\<close> the
  number of iterations still to run. It yields the hook and text of the last iteration and
  the set of used hooks, which is changed only where the loop breaks. \<open>tried\<close> collects
  the normalized hooks of the iterations that ran, so that they can be counted. A loop
  over an empty range would leave \<^verbatim>\<open>hook\<close> unbound.
\<close>

fun retry_hook ::
  "nat \<Rightarrow> template \<Rightarrow> pillar_data \<Rightarrow> common \<Rightarrow> pystr set \<Rightarrow> pystr list \<Rightarrow>
     (pystr \<times> pystr \<times> pystr set \<times> pystr list) gen" where
  "retry_hook 0 template pillar_data common used_hooks tried rng = Inl UnboundLocalError"
| "retry_hook (Suc n) template pillar_data common used_hooks tried rng =
     (case generate_post_text template pillar_data common rng of
        Inl e \<Rightarrow> Inl e
      | Inr ((hook, text), rng') \<Rightarrow>
          (let normalized_hook = normalize_text hook in
           if normalized_hook \<notin> used_hooks then
             Inr ((hook, text, insert normalized_hook used_hooks, tried @ [normalized_hook]),
                  rng')
           else if n = 0 then
             Inr ((hook, text, used_hooks, tried @ [normalized_hook]), rng')
           else
             retry_hook n template pillar_data common used_hooks
               (tried @ [normalized_hook]) rng'))"

text \<open>
  \<^verbatim>\<open>generate_single_post\<close>. The result is the record (or \<^verbatim>\<open>None\<close>), the set of used
  hooks as the call leaves it, the hooks the retry loop tried and the rest of the random
  stream.
\<close>

definition generate_single_post ::
  "(8 word list \<Rightarrow> 256 word) \<Rightarrow> pystr \<Rightarrow> pystr \<Rightarrow> templates \<Rightarrow> lexicon \<Rightarrow> pystr set \<Rightarrow>
     (item option \<times> pystr set \<times> pystr list) gen" where
  "generate_single_post sha256 date slot templates lexicon used_hooks =
     (let slot_templates =
            get_or_nil (map_of (case templates of None \<Rightarrow> [] | Some ts \<Rightarrow> ts) slot);
          pillars = get_or_nil (lex_pillars lexicon);
          common = (case lex_common lexicon of None \<Rightarrow> \<lparr>com_counts = None\<rparr> | Some c \<Rightarrow> c)
      in
      if slot_templates = [] \<or> pillars = [] then gen_return (None, used_hooks, [])
      else
        gen_bind (choice slot_templates) (\<lambda>template.
        gen_bind (choice pillars) (\<lambda>(pillar_key, pillar_data).
        gen_bind (retry_hook 5 template pillar_data common used_hooks [])
          (\<lambda>(hook, body, used_hooks', tried).
        gen_bind (generate_hashtags lexicon pillar_key) (\<lambda>hashtags.
        let text = (if hashtags \<noteq> [] then body @ [NL, NL] @ hashtags else body) in
        case calculate_fingerprint sha256 text of
          Inl e \<Rightarrow> (\<lambda>rng. Inl e)
        | Inr fingerprint \<Rightarrow>
            gen_return
              (Some \<lparr>item_date = Some date,
                     item_slot = Some slot,
                     item_pillar = Some pillar_key,
                     item_format = Some (get_or_empty (tpl_format template)),
                     item_hook = Some hook,
                     item_text = Some text,
                     item_status = Some (ascii ''draft''),
                     item_fingerprint = Some fingerprint,
                     item_tweet_id = Null,
                     item_posted_at_utc = Null\<rparr>,
               used_hooks', tried))))))"

section \<open>The validator's length check (\<^verbatim>\<open>scripts/validate_queue.py\<close>)\<close>

datatype queue_error = TooLong nat nat | TooShort nat nat

definition validate_queue_text_length :: "item \<Rightarrow> nat \<Rightarrow> queue_error list" where
  "validate_queue_text_length item index =
     (let text = get_or_empty (item_text item);
          len = length text
      in (if len > MAX_TEXT_LENGTH then [TooLong index len] else [])
         @ (if len < 10 then [TooShort index len] else []))"

section \<open>Normalization is idempotent\<close>

lemma sub_blanks_head:
  "sub_blanks ys = c # zs \<Longrightarrow> is_blank c \<Longrightarrow> ys \<noteq> [] \<and> is_blank (hd ys)"
  by (cases ys) (auto split: if_splits)

lemma dropWhile_head: "dropWhile P xs = y # ys \<Longrightarrow> \<not> P y"
  by (metis hd_dropWhile list.distinct(1) list.sel(1))

lemma sub_blanks_no_tab: "TAB \<notin> set (sub_blanks t)"
  by (induction t rule: sub_blanks.induct) (auto simp: is_blank_def SP_def TAB_def)

lemma sub_blanks_no_run: "\<not> sublist [SP, SP] (sub_blanks t)"
proof (induction t rule: sub_blanks.induct)
  case 1
  then show ?case by simp
next
  case (2 c cs)
  show ?case
  proof (cases "is_blank c")
    case True
    have "\<not> prefix [SP, SP] (SP # sub_blanks (dropWhile is_blank cs))"
    proof
      assume "prefix [SP, SP] (SP # sub_blanks (dropWhile is_blank cs))"
      then obtain zs where z: "sub_blanks (dropWhile is_blank cs) = SP # zs"
        by (auto simp: prefix_def)
      have "is_blank SP" by (simp add: is_blank_def)
      from sub_blanks_head [OF z this] obtain y ys where "dropWhile is_blank cs = y # ys" "is_blank y"
        by (cases "dropWhile is_blank cs") auto
      then show False using dropWhile_head by metis
    qed
    with True 2 show ?thesis by (simp add: sublist_Cons_right)
  next
    case False
    have "\<not> prefix [SP, SP] (c # sub_blanks cs)"
      using False by (auto simp: prefix_def is_blank_def)
    with False 2 show ?thesis by (simp add: sublist_Cons_right)
  qed
qed

lemma sub_blanks_fixed:
  "TAB \<notin> set t \<Longrightarrow> \<not> sublist [SP, SP] t \<Longrightarrow> sub_blanks t = t"
proof (induction t rule: sub_blanks.induct)
  case 1
  then show ?case by simp
next
  case (2 c cs)
  from 2(4) have ns: "\<not> sublist [SP, SP] cs" and np: "\<not> prefix [SP, SP] (c # cs)"
    by (auto simp: sublist_Cons_right)
  show ?case
  proof (cases "is_blank c")
    case True
    with 2(3) have c: "c = SP" by (auto simp: is_blank_def)
    have "dropWhile is_blank cs = cs"
    proof (cases cs)
      case Nil
      then show ?thesis by simp
    next
      case (Cons d ds)
      with np c have "d \<noteq> SP" by auto
      moreover from 2(3) Cons have "d \<noteq> TAB" by auto
      ultimately show ?thesis using Cons by (simp add: is_blank_def)
    qed
    with True c 2 ns show ?thesis by simp
  next
    case False
    with 2 ns show ?thesis by simp
  qed
qed

lemma set_sub_newlines: "set (sub_newlines t) \<subseteq> set t"
proof (induction t rule: sub_newlines.induct)
  case 1
  then show ?case by simp
next
  case (2 c cs)
  show ?case
  proof (cases "c = NL \<and> take 2 cs = [NL, NL]")
    case True
    have "set (dropWhile (\<lambda>x. x = NL) cs) \<subseteq> set cs"
      by (simp add: set_dropWhileD subsetI)
    moreover have "set (sub_newlines (dropWhile (\<lambda>x. x = NL) cs)) \<subseteq> set (dropWhile (\<lambda>x. x = NL) cs)"
      using True 2(1) by simp
    moreover have "sub_newlines (c # cs) = NL # NL # sub_newlines (dropWhile (\<lambda>x. x = NL) cs)"
      using True by simp
    ultimately show ?thesis using True by auto
  next
    case False
    then have "sub_newlines (c # cs) = c # sub_newlines cs" by auto
    moreover have "set (sub_newlines cs) \<subseteq> set cs" using False 2(2) by simp
    ultimately show ?thesis by auto
  qed
qed

lemma sub_newlines_head:
  "sub_newlines ys = c # zs \<Longrightarrow> ys \<noteq> [] \<and> hd ys = c"
  by (cases ys) (auto split: if_splits)

lemma sub_newlines_head2:
  assumes "sub_newlines ys = NL # NL # zs"
  shows "take 2 ys = [NL, NL]"
proof (cases ys)
  case Nil
  with assms show ?thesis by simp
next
  case (Cons c cs)
  show ?thesis
  proof (cases "c = NL \<and> take 2 cs = [NL, NL]")
    case True
    then obtain d ds where cs: "cs = d # ds" by (cases cs) simp_all
    with True have "d = NL" by simp
    with True Cons cs show ?thesis by simp
  next
    case False
    then have "sub_newlines (c # cs) = c # sub_newlines cs" by auto
    with assms Cons have c: "c = NL" and r: "sub_newlines cs = NL # zs" by simp_all
    from sub_newlines_head [OF r] obtain ds where "cs = NL # ds" by (cases cs) simp_all
    with c Cons show ?thesis by simp
  qed
qed

lemma sub_newlines_keeps_blanks:
  "\<not> sublist [SP, SP] t \<Longrightarrow> \<not> sublist [SP, SP] (sub_newlines t)"
proof (induction t rule: sub_newlines.induct)
  case 1
  then show ?case by simp
next
  case (2 c cs)
  from 2(3) have ns: "\<not> sublist [SP, SP] cs" and np: "\<not> prefix [SP, SP] (c # cs)"
    by (auto simp: sublist_Cons_right)
  show ?case
  proof (cases "c = NL \<and> take 2 cs = [NL, NL]")
    case True
    have "\<not> sublist [SP, SP] (dropWhile (\<lambda>x. x = NL) cs)"
      using ns sublist_dropWhile sublist_order.order.trans by blast
    with True 2(1) have "\<not> sublist [SP, SP] (sub_newlines (dropWhile (\<lambda>x. x = NL) cs))"
      by simp
    moreover have "sub_newlines (c # cs) = NL # NL # sub_newlines (dropWhile (\<lambda>x. x = NL) cs)"
      using True by simp
    moreover have "SP \<noteq> NL" by (simp add: SP_def NL_def)
    ultimately show ?thesis
      by (simp add: sublist_Cons_right)
  next
    case False
    have "\<not> prefix [SP, SP] (c # sub_newlines cs)"
    proof
      assume "prefix [SP, SP] (c # sub_newlines cs)"
      then obtain zs where "c = SP" "sub_newlines cs = SP # zs"
        by (auto simp: prefix_def)
      with sub_newlines_head [of cs SP zs] np show False
        by (cases cs) (auto simp: prefix_def)
    qed
    moreover have "sub_newlines (c # cs) = c # sub_newlines cs" using False by auto
    moreover have "\<not> sublist [SP, SP] (sub_newlines cs)" using False 2(2) ns by simp
    ultimately show ?thesis by (simp only: sublist_Cons_right) simp
  qed
qed

lemma sub_newlines_no_run: "\<not> sublist [NL, NL, NL] (sub_newlines t)"
proof (induction t rule: sub_newlines.induct)
  case 1
  then show ?case by simp
next
  case (2 c cs)
  show ?case
  proof (cases "c = NL \<and> take 2 cs = [NL, NL]")
    case True
    let ?r = "sub_newlines (dropWhile (\<lambda>x. x = NL) cs)"
    have h: "\<And>zs. ?r \<noteq> NL # zs"
    proof
      fix zs assume "?r = NL # zs"
      from sub_newlines_head [OF this] obtain ys where "dropWhile (\<lambda>x. x = NL) cs = NL # ys"
        by (cases "dropWhile (\<lambda>x. x = NL) cs") auto
      from dropWhile_head [OF this] show False by simp
    qed
    have "\<not> prefix [NL] ?r" "\<not> prefix [NL, NL] ?r"
      using h by (auto simp: prefix_def)
    moreover have "sub_newlines (c # cs) = NL # NL # ?r" using True by simp
    moreover have "\<not> sublist [NL, NL, NL] ?r" using True 2(1) by simp
    ultimately show ?thesis by (simp add: sublist_Cons_right)
  next
    case False
    have "\<not> prefix [NL, NL, NL] (c # sub_newlines cs)"
    proof
      assume "prefix [NL, NL, NL] (c # sub_newlines cs)"
      then obtain zs where "c = NL" "sub_newlines cs = NL # NL # zs"
        by (auto simp: prefix_def)
      with sub_newlines_head2 [of cs zs] False show False by simp
    qed
    moreover have "sub_newlines (c # cs) = c # sub_newlines cs" using False by auto
    moreover have "\<not> sublist [NL, NL, NL] (sub_newlines cs)" using False 2(2) by simp
    ultimately show ?thesis by (simp only: sublist_Cons_right) simp
  qed
qed

lemma sub_newlines_fixed:
  "\<not> sublist [NL, NL, NL] t \<Longrightarrow> sub_newlines t = t"
proof (induction t rule: sub_newlines.induct)
  case 1
  then show ?case by simp
next
  case (2 c cs)
  from 2(3) have ns: "\<not> sublist [NL, NL, NL] cs" and np: "\<not> prefix [NL, NL, NL] (c # cs)"
    by (auto simp: sublist_Cons_right)
  have "\<not> (c = NL \<and> take 2 cs = [NL, NL])"
  proof
    assume a: "c = NL \<and> take 2 cs = [NL, NL]"
    then have "prefix [NL, NL] cs" by (metis take_is_prefix)
    with a np show False by simp
  qed
  then have "sub_newlines (c # cs) = c # sub_newlines cs" and "sub_newlines cs = cs"
    using 2(2) ns by auto
  then show ?case by simp
qed

lemma strip_sublist: "sublist (strip s) s"
proof -
  have "sublist (rev (dropWhile is_space (rev s))) s"
    by (simp add: sublist_rev_left)
  then show ?thesis
    unfolding strip_def using sublist_dropWhile sublist_order.order.trans by blast
qed

lemma dropWhile_id: "xs = [] \<or> \<not> P (hd xs) \<Longrightarrow> dropWhile P xs = xs"
  by (cases xs) auto

lemma strip_ends:
  "strip s = [] \<or> (\<not> is_space (hd (strip s)) \<and> \<not> is_space (last (strip s)))"
proof (cases "strip s = []")
  case True
  then show ?thesis by simp
next
  case False
  let ?a = "rev (dropWhile is_space (rev s))"
  from False have ne: "dropWhile is_space ?a \<noteq> []" by (simp add: strip_def)
  then have h: "\<not> is_space (hd (strip s))"
    unfolding strip_def by (rule hd_dropWhile)
  from ne have ane: "dropWhile is_space (rev s) \<noteq> []" by (cases "dropWhile is_space (rev s)") simp_all
  have "last (dropWhile is_space ?a) = last ?a"
  proof -
    obtain ps where "?a = ps @ dropWhile is_space ?a"
      using suffix_dropWhile [of is_space ?a] by (auto simp: suffix_def)
    then show ?thesis using ne by (metis last_appendR)
  qed
  also have "\<dots> = hd (dropWhile is_space (rev s))"
    using ane by (simp add: last_rev)
  finally have "\<not> is_space (last (strip s))"
    unfolding strip_def using hd_dropWhile [OF ane] by simp
  with h show ?thesis by simp
qed

lemma strip_fixed:
  "s = [] \<or> (\<not> is_space (hd s) \<and> \<not> is_space (last s)) \<Longrightarrow> strip s = s"
proof (cases "s = []")
  case True
  then show ?thesis by (simp add: strip_def)
next
  case False
  assume "s = [] \<or> (\<not> is_space (hd s) \<and> \<not> is_space (last s))"
  with False have h: "\<not> is_space (hd s)" and l: "\<not> is_space (last s)" by auto
  from False l have "dropWhile is_space (rev s) = rev s"
    by (intro dropWhile_id) (simp add: hd_rev)
  with h False show ?thesis by (simp add: strip_def dropWhile_id)
qed

lemma strip_idem: "strip (strip s) = strip s"
  using strip_ends [of s] by (rule strip_fixed)

lemma normalize_text_idem: "normalize_text (normalize_text t) = normalize_text t"
proof -
  let ?s = "sub_newlines (sub_blanks t)"
  let ?u = "strip ?s"
  have sub: "sublist ?u ?s" by (rule strip_sublist)
  have "TAB \<notin> set ?s" using sub_blanks_no_tab set_sub_newlines by blast
  then have t: "TAB \<notin> set ?u" using set_mono_sublist [OF sub] by blast
  have "\<not> sublist [SP, SP] ?s" by (simp add: sub_newlines_keeps_blanks sub_blanks_no_run)
  then have b: "\<not> sublist [SP, SP] ?u" using sub sublist_order.order.trans by blast
  have "\<not> sublist [NL, NL, NL] ?s" by (rule sub_newlines_no_run)
  then have n: "\<not> sublist [NL, NL, NL] ?u" using sub sublist_order.order.trans by blast
  have "sub_blanks ?u = ?u" using t b by (rule sub_blanks_fixed)
  moreover have "sub_newlines ?u = ?u" using n by (rule sub_newlines_fixed)
  ultimately show ?thesis by (simp add: normalize_text_def strip_idem)
qed

lemma sub_blanks_append:
  "u = [] \<or> \<not> is_blank (last u) \<Longrightarrow> sub_blanks (u @ w) = sub_blanks u @ sub_blanks w"
proof (induction u rule: sub_blanks.induct)
  case 1
  then show ?case by simp
next
  case (2 c cs)
  show ?case
  proof (cases "is_blank c")
    case True
    with 2(3) have ne: "cs \<noteq> []" and l: "\<not> is_blank (last cs)" by (auto split: if_splits)
    then have m: "last cs \<in> set cs" by simp
    have d: "dropWhile is_blank (cs @ w) = dropWhile is_blank cs @ w"
      using m l by (rule dropWhile_append1)
    have dne: "dropWhile is_blank cs \<noteq> []"
      using m l by (auto simp: dropWhile_eq_Nil_conv)
    obtain ps where "cs = ps @ dropWhile is_blank cs"
      using suffix_dropWhile [of is_blank cs] by (auto simp: suffix_def)
    then have "last (dropWhile is_blank cs) = last cs"
      using dne by (metis last_appendR)
    with l dne True 2(1) have
      "sub_blanks (dropWhile is_blank cs @ w) = sub_blanks (dropWhile is_blank cs) @ sub_blanks w"
      by simp
    with True d show ?thesis by simp
  next
    case False
    show ?thesis
    proof (cases "cs = []")
      case True
      with False show ?thesis by simp
    next
      case ne: False
      with 2(3) have "\<not> is_blank (last cs)" by simp
      with False 2(2) have "sub_blanks (cs @ w) = sub_blanks cs @ sub_blanks w" by simp
      with False show ?thesis by simp
    qed
  qed
qed

lemma sub_blanks_run:
  assumes "bs \<noteq> []" "\<forall>b \<in> set bs. is_blank b" "v = [] \<or> \<not> is_blank (hd v)"
  shows "sub_blanks (bs @ v) = SP # sub_blanks v"
proof -
  from assms(1) obtain b bs' where bs: "bs = b # bs'" by (cases bs) auto
  have "dropWhile is_blank (bs' @ v) = dropWhile is_blank v"
    using assms(2) bs by (simp add: dropWhile_append2)
  also have "\<dots> = v" using assms(3) by (cases v) auto
  finally show ?thesis using assms(2) bs by simp
qed

lemma sub_newlines_append:
  "u = [] \<or> last u \<noteq> NL \<Longrightarrow> sub_newlines (u @ w) = sub_newlines u @ sub_newlines w"
proof (induction u rule: sub_newlines.induct)
  case 1
  then show ?case by simp
next
  case (2 c cs)
  show ?case
  proof (cases "cs = []")
    case True
    with 2(3) have "c \<noteq> NL" by simp
    with True show ?thesis by simp
  next
    case ne: False
    with 2(3) have l: "last cs \<noteq> NL" by simp
    have t: "take 2 (cs @ w) = [NL, NL] \<longleftrightarrow> take 2 cs = [NL, NL]"
    proof (cases cs)
      case Nil
      with ne show ?thesis by simp
    next
      case (Cons d ds)
      show ?thesis
      proof (cases ds)
        case Nil
        with Cons l show ?thesis by simp
      next
        case (Cons e es)
        with \<open>cs = d # ds\<close> show ?thesis by simp
      qed
    qed
    show ?thesis
    proof (cases "c = NL \<and> take 2 cs = [NL, NL]")
      case True
      let ?d = "dropWhile (\<lambda>x. x = NL) cs"
      have m: "last cs \<in> set cs" using ne by simp
      have d: "dropWhile (\<lambda>x. x = NL) (cs @ w) = ?d @ w"
        using m l by (rule dropWhile_append1)
      have dne: "?d \<noteq> []" using m l by (auto simp: dropWhile_eq_Nil_conv)
      obtain ps where "cs = ps @ ?d"
        using suffix_dropWhile [of "\<lambda>x. x = NL" cs] by (auto simp: suffix_def)
      then have "last ?d = last cs" using dne by (metis last_appendR)
      with l dne True 2(1) have "sub_newlines (?d @ w) = sub_newlines ?d @ sub_newlines w"
        by simp
      moreover have "sub_newlines (c # cs) = NL # NL # sub_newlines ?d" using True by simp
      moreover have "sub_newlines (c # cs @ w) = NL # NL # sub_newlines (?d @ w)"
        using True t d by simp
      ultimately show ?thesis by simp
    next
      case False
      then have a: "sub_newlines (c # cs) = c # sub_newlines cs" by auto
      from False t have b: "sub_newlines (c # cs @ w) = c # sub_newlines (cs @ w)" by auto
      from False 2(2) l have "sub_newlines (cs @ w) = sub_newlines cs @ sub_newlines w" by simp
      with a b show ?thesis by simp
    qed
  qed
qed

lemma sub_newlines_run:
  assumes "v = [] \<or> hd v \<noteq> NL"
  shows "sub_newlines (replicate n NL @ v) =
           (if 3 \<le> n then [NL, NL] else replicate n NL) @ sub_newlines v"
proof -
  have dv: "dropWhile (\<lambda>x. x = NL) (replicate k NL @ v) = v" for k
    using assms by (induction k) (auto simp: dropWhile_id)
  have "n = 0 \<or> n = 1 \<or> n = 2 \<or> n = Suc (Suc (Suc (n - 3)))" by arith
  then consider "n = 0" | "n = 1" | "n = 2" | k where "n = Suc (Suc (Suc k))"
    by blast
  then show ?thesis
  proof cases
    case 1
    then show ?thesis by simp
  next
    case 2
    with assms show ?thesis by (cases v) auto
  next
    case 3
    then have "replicate n NL = [NL, NL]" by (simp add: numeral_2_eq_2)
    with assms 3 show ?thesis by (cases v) auto
  next
    case 4
    then have "replicate n NL @ v = NL # NL # NL # replicate k NL @ v" by simp
    with dv [of k] 4 show ?thesis by simp
  qed
qed

lemma strip_decompose:
  "\<exists>l r. s = l @ strip s @ r \<and> (\<forall>c \<in> set l. is_space c) \<and> (\<forall>c \<in> set r. is_space c)"
proof -
  let ?a = "rev (dropWhile is_space (rev s))"
  let ?r = "rev (takeWhile is_space (rev s))"
  let ?l = "takeWhile is_space ?a"
  have "rev s = takeWhile is_space (rev s) @ dropWhile is_space (rev s)" by simp
  then have "rev (rev s) = rev (takeWhile is_space (rev s) @ dropWhile is_space (rev s))"
    by (rule arg_cong)
  then have s: "s = ?a @ ?r" by (simp only: rev_append rev_rev_ident)
  have a: "?a = ?l @ strip s" by (simp add: strip_def)
  have "s = ?l @ strip s @ ?r" using s a by (metis append_assoc)
  moreover have "\<forall>c \<in> set ?l. is_space c" by (meson set_takeWhileD)
  moreover have "\<forall>c \<in> set ?r. is_space c" by (metis set_rev set_takeWhileD)
  ultimately show ?thesis by blast
qed

text \<open>
  Claim C4. \<^verbatim>\<open>normalize_text\<close> is a total function and idempotent. It is the composition
  of three steps: every run of spaces and tabs, delimited by other characters or the ends
  of the text, becomes one space; every run of newlines so delimited becomes two newlines
  when it has three or more, and is kept otherwise; then the whitespace at both ends is
  removed, so that the result neither starts nor ends with whitespace.
\<close>

theorem normalize_text_idempotent:
  "normalize_text (normalize_text t) = normalize_text t \<and>
   normalize_text t = strip (sub_newlines (sub_blanks t)) \<and>
   (\<forall>u bs v. (u = [] \<or> \<not> is_blank (last u)) \<and> bs \<noteq> [] \<and> (\<forall>b \<in> set bs. is_blank b) \<and>
        (v = [] \<or> \<not> is_blank (hd v)) \<longrightarrow>
        sub_blanks (u @ bs @ v) = sub_blanks u @ [SP] @ sub_blanks v) \<and>
   (\<forall>u n v. (u = [] \<or> last u \<noteq> NL) \<and> (v = [] \<or> hd v \<noteq> NL) \<longrightarrow>
        sub_newlines (u @ replicate n NL @ v) =
          sub_newlines u @ (if 3 \<le> n then [NL, NL] else replicate n NL) @ sub_newlines v) \<and>
   (\<exists>l r. sub_newlines (sub_blanks t) = l @ normalize_text t @ r \<and>
        (\<forall>c \<in> set l. is_space c) \<and> (\<forall>c \<in> set r. is_space c)) \<and>
   (normalize_text t = [] \<or>
      (\<not> is_space (hd (normalize_text t)) \<and> \<not> is_space (last (normalize_text t))))"
proof (intro conjI allI impI)
  show "normalize_text (normalize_text t) = normalize_text t" by (rule normalize_text_idem)
  show "normalize_text t = strip (sub_newlines (sub_blanks t))" by (simp add: normalize_text_def)
next
  fix u bs v
  assume "(u = [] \<or> \<not> is_blank (last u)) \<and> bs \<noteq> [] \<and> (\<forall>b \<in> set bs. is_blank b) \<and>
        (v = [] \<or> \<not> is_blank (hd v))"
  then show "sub_blanks (u @ bs @ v) = sub_blanks u @ [SP] @ sub_blanks v"
    by (simp add: sub_blanks_append sub_blanks_run)
next
  fix u n v
  assume "(u = [] \<or> last u \<noteq> NL) \<and> (v = [] \<or> hd v \<noteq> NL)"
  then show "sub_newlines (u @ replicate n NL @ v) =
          sub_newlines u @ (if 3 \<le> n then [NL, NL] else replicate n NL) @ sub_newlines v"
    by (simp only: sub_newlines_append sub_newlines_run)
next
  show "\<exists>l r. sub_newlines (sub_blanks t) = l @ normalize_text t @ r \<and>
        (\<forall>c \<in> set l. is_space c) \<and> (\<forall>c \<in> set r. is_space c)"
    unfolding normalize_text_def by (rule strip_decompose)
  show "normalize_text t = [] \<or>
      (\<not> is_space (hd (normalize_text t)) \<and> \<not> is_space (last (normalize_text t)))"
    unfolding normalize_text_def by (rule strip_ends)
qed

theorem normalize_text_idempotent_witness:
  "normalize_text (normalize_text [SP, 97, SP, TAB, 98, NL, NL, NL, NL, 99, SP])
     = normalize_text [SP, 97, SP, TAB, 98, NL, NL, NL, NL, 99, SP] \<and>
   normalize_text [SP, 97, SP, TAB, 98, NL, NL, NL, NL, 99, SP] = [97, SP, 98, NL, NL, 99] \<and>
   sub_blanks ([97] @ [SP, TAB] @ [98]) = [97, SP, 98] \<and>
   sub_newlines ([98] @ replicate 4 NL @ [99]) = [98, NL, NL, 99] \<and>
   sub_newlines ([98] @ replicate 2 NL @ [99]) = [98, NL, NL, 99]"
proof -
  note t = normalize_text_idempotent [of "[SP, 97, SP, TAB, 98, NL, NL, NL, NL, 99, SP]"]
  have i: "normalize_text (normalize_text [SP, 97, SP, TAB, 98, NL, NL, NL, NL, 99, SP])
     = normalize_text [SP, 97, SP, TAB, 98, NL, NL, NL, NL, 99, SP]"
    using t by (rule conjunct1)
  have v: "normalize_text [SP, 97, SP, TAB, 98, NL, NL, NL, NL, 99, SP] = [97, SP, 98, NL, NL, 99]"
    by (simp add: normalize_text_def strip_def is_blank_def is_space_def SP_def TAB_def NL_def)
  have "sub_blanks ([97] @ [SP, TAB] @ [98]) = sub_blanks [97] @ [SP] @ sub_blanks [98]"
    using t [THEN conjunct2, THEN conjunct2, THEN conjunct1, rule_format,
             of "[97]" "[SP, TAB]" "[98]"]
    by (simp add: is_blank_def SP_def TAB_def)
  then have b: "sub_blanks ([97] @ [SP, TAB] @ [98]) = [97, SP, 98]"
    by (simp add: is_blank_def SP_def TAB_def)
  note n = t [THEN conjunct2, THEN conjunct2, THEN conjunct2, THEN conjunct1, rule_format]
  have "sub_newlines ([98] @ replicate 4 NL @ [99])
          = sub_newlines [98] @ (if 3 \<le> (4::nat) then [NL, NL] else replicate 4 NL)
              @ sub_newlines [99]"
    using n [of "[98]" "[99]" 4] by (simp add: NL_def)
  then have n4: "sub_newlines ([98] @ replicate 4 NL @ [99]) = [98, NL, NL, 99]"
    by (simp add: NL_def)
  have "sub_newlines ([98] @ replicate 2 NL @ [99])
          = sub_newlines [98] @ (if 3 \<le> (2::nat) then [NL, NL] else replicate 2 NL)
              @ sub_newlines [99]"
    using n [of "[98]" "[99]" 2] by (simp add: NL_def)
  then have n2: "sub_newlines ([98] @ replicate 2 NL @ [99]) = [98, NL, NL, 99]"
    by (simp add: NL_def numeral_2_eq_2)
  from i v b n4 n2 show ?thesis by (intro conjI)
qed

end
